theory Spec2Isabelle
  imports Main "HOL-Library.Sublist"
begin

section \<open>Values\<close>

text \<open>
  The request body, the rows of a result set and the response are JSON-shaped Python values.
  A Python \<^verbatim>\<open>dict\<close> is an association list read with \<open>map_of\<close>; a \<^verbatim>\<open>str\<close> is a \<open>string\<close>
  holding its UTF-8 bytes. JSON numbers with a fraction are not represented.
\<close>

datatype json =
    JNull
  | JBool bool
  | JInt int
  | JStr string
  | JList "json list"
  | JDict "(string \<times> json) list"

text \<open>Python truthiness, as \<^verbatim>\<open>not x\<close> reads it.\<close>

fun truthy :: "json \<Rightarrow> bool" where
  "truthy JNull = False"
| "truthy (JBool b) = b"
| "truthy (JInt i) = (i \<noteq> 0)"
| "truthy (JStr s) = (s \<noteq> [])"
| "truthy (JList xs) = (xs \<noteq> [])"
| "truthy (JDict kvs) = (kvs \<noteq> [])"

text \<open>\<^verbatim>\<open>d.get(k)\<close>: the value, or \<^verbatim>\<open>None\<close> for a missing key.\<close>

definition dict_get :: "(string \<times> json) list \<Rightarrow> string \<Rightarrow> json" where
  "dict_get d k = (case map_of d k of None \<Rightarrow> JNull | Some v \<Rightarrow> v)"

subsection \<open>Rendering a value inside an f-string\<close>

definition digit_char :: "nat \<Rightarrow> char" where
  "digit_char n = char_of (48 + n)"

fun nat_str :: "nat \<Rightarrow> string" where
  "nat_str n = (if n < 10 then [digit_char n] else nat_str (n div 10) @ [digit_char (n mod 10)])"

definition int_str :: "int \<Rightarrow> string" where
  "int_str i = (if i < 0 then CHR ''-'' # nat_str (nat (- i)) else nat_str (nat i))"

definition hex_char :: "nat \<Rightarrow> char" where
  "hex_char n = (if n < 10 then char_of (48 + n) else char_of (87 + n))"

text \<open>
  \<^verbatim>\<open>repr\<close> of a \<^verbatim>\<open>str\<close>: double quotes when the text has a single quote and no double
  quote, single quotes otherwise; the quote and the backslash are escaped, and so are the
  control characters. Bytes of non-ASCII characters are kept.
\<close>

definition repr_char :: "char \<Rightarrow> char \<Rightarrow> string" where
  "repr_char q c =
     (if c = q \<or> c = CHR 0x5C then [CHR 0x5C, c]
      else if c = CHR 0x09 then [CHR 0x5C, CHR ''t'']
      else if c = CHR 0x0A then [CHR 0x5C, CHR ''n'']
      else if c = CHR 0x0D then [CHR 0x5C, CHR ''r'']
      else if (of_char c :: nat) < 32 \<or> (of_char c :: nat) = 127
        then [CHR 0x5C, CHR ''x'', hex_char (of_char c div 16), hex_char (of_char c mod 16)]
      else [c])"

definition str_repr :: "string \<Rightarrow> string" where
  "str_repr s =
     (let q = (if CHR 0x27 \<in> set s \<and> CHR 0x22 \<notin> set s then CHR 0x22 else CHR 0x27)
      in q # concat (map (repr_char q) s) @ [q])"

fun join :: "string \<Rightarrow> string list \<Rightarrow> string" where
  "join sep [] = []"
| "join sep [x] = x"
| "join sep (x # y # ys) = x @ sep @ join sep (y # ys)"

fun py_repr :: "json \<Rightarrow> string" where
  "py_repr JNull = ''None''"
| "py_repr (JBool b) = (if b then ''True'' else ''False'')"
| "py_repr (JInt i) = int_str i"
| "py_repr (JStr s) = str_repr s"
| "py_repr (JList xs) = ''['' @ join '', '' (map py_repr xs) @ '']''"
| "py_repr (JDict kvs) =
     ''{'' @ join '', '' (map (\<lambda>kv. str_repr (fst kv) @ '': '' @ py_repr (snd kv)) kvs) @ ''}''"

text \<open>\<^verbatim>\<open>str(x)\<close>, which is what \<^verbatim>\<open>f"{x}"\<close> inserts: a \<^verbatim>\<open>str\<close> as it is, anything else by its \<^verbatim>\<open>repr\<close>.\<close>

definition py_str :: "json \<Rightarrow> string" where
  "py_str v = (case v of JStr s \<Rightarrow> s | _ \<Rightarrow> py_repr v)"

subsection \<open>\<^verbatim>\<open>str.lower\<close> and the \<^verbatim>\<open>in\<close> test on strings\<close>

text \<open>Lowercasing maps the ASCII capitals; every other byte is left as it is.\<close>

definition lower_char :: "char \<Rightarrow> char" where
  "lower_char c =
     (if 65 \<le> (of_char c :: nat) \<and> (of_char c :: nat) \<le> 90 then char_of ((of_char c :: nat) + 32) else c)"

definition str_lower :: "string \<Rightarrow> string" where
  "str_lower s = map lower_char s"

fun starts_with :: "string \<Rightarrow> string \<Rightarrow> bool" where
  "starts_with [] s = True"
| "starts_with (p # ps) [] = False"
| "starts_with (p # ps) (c # cs) = (p = c \<and> starts_with ps cs)"

text \<open>\<^verbatim>\<open>sub in s\<close>: \<open>sub\<close> occurs in \<open>s\<close> as a contiguous run.\<close>

fun str_contains :: "string \<Rightarrow> string \<Rightarrow> bool" where
  "str_contains sub [] = (sub = [])"
| "str_contains sub (c # cs) = (starts_with sub (c # cs) \<or> str_contains sub cs)"

section \<open>Exceptions, results and effects\<close>

datatype exn =
    HTTPException nat json        \<comment> \<open>status code and detail\<close>
  | MySQLError string             \<comment> \<open>\<^verbatim>\<open>mysql.connector.Error\<close>, with its \<^verbatim>\<open>str\<close>\<close>
  | AttributeError string
  | IndexError string
  | RequestValidationError        \<comment> \<open>the body does not fit \<^verbatim>\<open>McpRequest\<close>\<close>
  | OtherException string         \<comment> \<open>any other exception the driver raises\<close>

datatype 'a result = Return 'a | Raise exn

text \<open>\<^verbatim>\<open>str(e)\<close>; an \<^verbatim>\<open>HTTPException\<close> prints its status code and its detail.\<close>

definition exn_str :: "exn \<Rightarrow> string" where
  "exn_str e =
     (case e of
        HTTPException code detail \<Rightarrow> nat_str code @ '': '' @ py_str detail
      | MySQLError m \<Rightarrow> m
      | AttributeError m \<Rightarrow> m
      | IndexError m \<Rightarrow> m
      | RequestValidationError \<Rightarrow> []
      | OtherException m \<Rightarrow> m)"

text \<open>What a call does to the outside, in the order it does it.\<close>

datatype event =
    ConnOpen                      \<comment> \<open>\<^verbatim>\<open>mysql.connector.connect\<close> returned a connection\<close>
  | ConnFailed                    \<comment> \<open>\<^verbatim>\<open>mysql.connector.connect\<close> raised\<close>
  | CursorOpen
  | Execute string                \<comment> \<open>the statement text sent to the server\<close>
  | CursorClose
  | ConnClose
  | LogError string

section \<open>The database server\<close>

text \<open>
  The server is outside the program: it is a parameter. \<open>connect_error\<close> is \<open>None\<close> when
  a connection can be opened and the driver's error text otherwise; \<open>answer\<close> gives, for
  a statement text, what \<^verbatim>\<open>cursor.execute\<close> followed by \<^verbatim>\<open>cursor.fetchall\<close> does: the rows
  (each a list of column name and value, in column order) or the exception raised.
\<close>

type_synonym row = "(string \<times> json) list"

datatype query_outcome = Rows "row list" | Fails exn

record database =
  connect_error :: "string option"
  answer :: "string \<Rightarrow> query_outcome"

definition get_db_connection :: "database \<Rightarrow> unit result \<times> event list" where
  "get_db_connection db =
     (case connect_error db of
        None \<Rightarrow> (Return (), [ConnOpen])
      | Some err \<Rightarrow>
          (Raise (HTTPException 500 (JStr (''Database connection error: '' @ err))),
           [ConnFailed, LogError (''Database connection failed: '' @ err)]))"

section \<open>The verb dispatcher\<close>

definition py_type_name :: "json \<Rightarrow> string" where
  "py_type_name v =
     (case v of JNull \<Rightarrow> ''NoneType'' | JBool _ \<Rightarrow> ''bool'' | JInt _ \<Rightarrow> ''int''
      | JStr _ \<Rightarrow> ''str'' | JList _ \<Rightarrow> ''list'' | JDict _ \<Rightarrow> ''dict'')"

definition no_attribute :: "json \<Rightarrow> string \<Rightarrow> exn" where
  "no_attribute v a =
     AttributeError ([CHR 0x27] @ py_type_name v @ [CHR 0x27] @ '' object has no attribute ''
                     @ [CHR 0x27] @ a @ [CHR 0x27])"

text \<open>\<^verbatim>\<open>request_data.get("parameters", {}).get(key)\<close>: only a \<^verbatim>\<open>dict\<close> has \<^verbatim>\<open>get\<close>.\<close>

definition get_parameter :: "(string \<times> json) list \<Rightarrow> string \<Rightarrow> json result" where
  "get_parameter request_data key =
     (case (case map_of request_data ''parameters'' of None \<Rightarrow> JDict [] | Some p \<Rightarrow> p) of
        JDict ps \<Rightarrow> Return (dict_get ps key)
      | p \<Rightarrow> Raise (no_attribute p ''get''))"

text \<open>\<^verbatim>\<open>[item[0] for item in rows]\<close> on the tuples of a plain cursor.\<close>

fun first_items :: "row list \<Rightarrow> json list result" where
  "first_items [] = Return []"
| "first_items ([] # rs) = Raise (IndexError ''tuple index out of range'')"
| "first_items ((kv # kvs) # rs) =
     (case first_items rs of Return vs \<Rightarrow> Return (snd kv # vs) | Raise e \<Rightarrow> Raise e)"

definition resource :: "json \<Rightarrow> json" where
  "resource table = JDict [(''name'', table), (''description'', JStr (''Table: '' @ py_str table))]"

definition read_statement :: "json \<Rightarrow> string" where
  "read_statement table_name = ''SELECT * FROM `'' @ py_str table_name @ ''` LIMIT 100;''"

definition blocked :: "string \<Rightarrow> bool" where
  "blocked statement =
     (str_contains ''delete'' (str_lower statement) \<or> str_contains ''drop'' (str_lower statement)
      \<or> str_contains ''update'' (str_lower statement) \<or> str_contains ''insert'' (str_lower statement))"

definition handle_request ::
  "database \<Rightarrow> (string \<times> json) list \<Rightarrow> (string \<times> json) list result \<times> event list" where
  "handle_request db request_data =
     (let verb = dict_get request_data ''verb'' in
      if verb = JStr ''list_resources'' then
        (case get_db_connection db of
           (Raise e, tr) \<Rightarrow> (Raise e, tr)
         | (Return _, tr) \<Rightarrow>
             (case answer db ''SHOW TABLES;'' of
                Fails e \<Rightarrow> (Raise e, tr @ [CursorOpen, Execute ''SHOW TABLES;''])
              | Rows rs \<Rightarrow>
                  (case first_items rs of
                     Raise e \<Rightarrow> (Raise e, tr @ [CursorOpen, Execute ''SHOW TABLES;''])
                   | Return tables \<Rightarrow>
                       (Return [(''resources'', JList (map resource tables))],
                        tr @ [CursorOpen, Execute ''SHOW TABLES;'', CursorClose, ConnClose]))))
      else if verb = JStr ''read'' then
        (case get_parameter request_data ''name'' of
           Raise e \<Rightarrow> (Raise e, [])
         | Return table_name \<Rightarrow>
             if \<not> truthy table_name
             then (Return [(''error'', JStr ''Table name is required for read verb.'')], [])
             else
               (case get_db_connection db of
                  (Raise e, tr) \<Rightarrow> (Raise e, tr)
                | (Return _, tr) \<Rightarrow>
                    (case answer db (read_statement table_name) of
                       Fails e \<Rightarrow> (Raise e, tr @ [CursorOpen, Execute (read_statement table_name)])
                     | Rows rows \<Rightarrow>
                         (Return [(''data'', JList (map JDict rows))],
                          tr @ [CursorOpen, Execute (read_statement table_name),
                                CursorClose, ConnClose]))))
      else if verb = JStr ''execute'' then
        (case get_parameter request_data ''statement'' of
           Raise e \<Rightarrow> (Raise e, [])
         | Return statement \<Rightarrow>
             if \<not> truthy statement
             then (Return [(''error'', JStr ''SQL statement is required for execute verb.'')], [])
             else
               (case statement of
                  JStr s \<Rightarrow>
                    if blocked s
                    then (Return [(''error'',
                                   JStr ''Only SELECT statements are allowed for security reasons.'')], [])
                    else
                      (case get_db_connection db of
                         (Raise e, tr) \<Rightarrow> (Raise e, tr)
                       | (Return _, tr) \<Rightarrow>
                           (case answer db s of
                              Rows results \<Rightarrow>
                                (Return [(''results'', JList (map JDict results))],
                                 tr @ [CursorOpen, Execute s, CursorClose, ConnClose])
                            | Fails (MySQLError err) \<Rightarrow>
                                (Return [(''error'', JStr (''SQL Error: '' @ err))],
                                 tr @ [CursorOpen, Execute s, CursorClose, ConnClose])
                            | Fails e \<Rightarrow>
                                (Raise e, tr @ [CursorOpen, Execute s, CursorClose, ConnClose])))
                | v \<Rightarrow> (Raise (no_attribute v ''lower''), [])))
      else (Return [(''error'', JStr (''Unsupported verb: '' @ py_str verb))], []))"

section \<open>The HTTP endpoints\<close>

text \<open>
  \<open>creds\<close> is what the security scheme hands over: the credentials it extracted, or
  \<open>None\<close>, which only a scheme that does not refuse requests by itself would pass on.
\<close>

definition verify_api_key :: "string \<Rightarrow> string option \<Rightarrow> string result" where
  "verify_api_key api_key creds =
     (case creds of
        None \<Rightarrow> Raise (HTTPException 401 (JStr ''Invalid API key''))
      | Some credentials \<Rightarrow>
          if credentials \<noteq> api_key then Raise (HTTPException 401 (JStr ''Invalid API key''))
          else Return credentials)"

text \<open>
  A path operation either returns a value or raises. \<open>process_query\<close> returns the
  dispatcher's mapping, or an \<^verbatim>\<open>HTTPException\<close> object as an ordinary return value.
\<close>

datatype handler_value = Body "(string \<times> json) list" | ExcObject exn

definition process_query ::
  "database \<Rightarrow> (string \<times> json) list \<Rightarrow> handler_value result \<times> event list" where
  "process_query db mcp_request =
     (case handle_request db mcp_request of
        (Return response, tr) \<Rightarrow>
          (case map_of response ''error'' of
             Some msg \<Rightarrow> (Return (ExcObject (HTTPException 400 msg)), tr)
           | None \<Rightarrow> (Return (Body response), tr))
      | (Raise (HTTPException code detail), tr) \<Rightarrow> (Raise (HTTPException code detail), tr)
      | (Raise e, tr) \<Rightarrow>
          (Raise (HTTPException 500 (JStr ''An internal server error occurred.'')),
           tr @ [LogError (''An unexpected error occurred: '' @ exn_str e)]))"

definition health_check :: "database \<Rightarrow> handler_value result \<times> event list" where
  "health_check db =
     (case get_db_connection db of
        (Return _, tr) \<Rightarrow>
          (Return (Body [(''status'', JStr ''ok''), (''database_connection'', JStr ''successful'')]),
           tr @ [ConnClose])
      | (Raise e, tr) \<Rightarrow>
          (Return (Body [(''status'', JStr ''error''), (''database_connection'', JStr ''failed''),
                         (''detail'', JStr (exn_str e))]), tr))"

text \<open>
  The security scheme \<^verbatim>\<open>auth_scheme = HTTPBearer()\<close> of the web framework, with \<^verbatim>\<open>auto_error\<close>
  left at its default: the \<^verbatim>\<open>Authorization\<close> header is split at its first space into scheme
  and credentials; a missing header, an empty scheme or empty credentials, and a scheme other
  than \<^verbatim>\<open>bearer\<close> (in any letter case) are refused by the scheme itself with status 403.
\<close>

definition get_authorization_scheme_param :: "string option \<Rightarrow> string \<times> string" where
  "get_authorization_scheme_param authorization_header_value =
     (case authorization_header_value of
        None \<Rightarrow> ([], [])
      | Some v \<Rightarrow>
          if v = [] then ([], [])
          else (takeWhile (\<lambda>c. c \<noteq> CHR '' '') v, drop 1 (dropWhile (\<lambda>c. c \<noteq> CHR '' '') v)))"

definition http_bearer :: "string option \<Rightarrow> string result" where
  "http_bearer authorization =
     (case get_authorization_scheme_param authorization of
        (scheme, credentials) \<Rightarrow>
          if authorization = None \<or> authorization = Some [] \<or> scheme = [] \<or> credentials = []
          then Raise (HTTPException 403 (JStr ''Not authenticated''))
          else if str_lower scheme \<noteq> ''bearer''
          then Raise (HTTPException 403 (JStr ''Invalid authentication credentials''))
          else Return credentials)"

text \<open>
  The body of a request as the framework's request handler meets it: bytes that decode as
  JSON, or bytes sent as JSON that do not.
\<close>

datatype raw_body = Undecodable | Decoded json

text \<open>
  The route \<^verbatim>\<open>POST /query\<close>, in the order in which the framework's request handler works:
  the body is decoded first, and a body that does not decode ends the request with a
  validation error; then the dependencies run, the security scheme and after it
  \<open>verify_api_key\<close> on the credentials the scheme extracted; then the decoded body is
  validated as an \<^verbatim>\<open>McpRequest\<close>, whose one field \<^verbatim>\<open>mcp_request\<close> has to be a \<^verbatim>\<open>dict\<close>; then the
  path operation runs.
\<close>

definition post_query ::
  "string \<Rightarrow> database \<Rightarrow> string option \<Rightarrow> raw_body \<Rightarrow> handler_value result \<times> event list" where
  "post_query api_key db authorization body =
     (case body of
        Undecodable \<Rightarrow> (Raise RequestValidationError, [])
      | Decoded content \<Rightarrow>
          (case http_bearer authorization of
             Raise e \<Rightarrow> (Raise e, [])
           | Return credentials \<Rightarrow>
               (case verify_api_key api_key (Some credentials) of
                  Raise e \<Rightarrow> (Raise e, [])
                | Return _ \<Rightarrow>
                    (case content of
                       JDict members \<Rightarrow>
                         (case map_of members ''mcp_request'' of
                            Some (JDict mcp_request) \<Rightarrow> process_query db mcp_request
                          | _ \<Rightarrow> (Raise RequestValidationError, []))
                     | _ \<Rightarrow> (Raise RequestValidationError, [])))))"

text \<open>
  The status line the web framework sends for the outcome of a path operation: a returned
  value, whatever it is, is serialised under 200; a raised \<^verbatim>\<open>HTTPException\<close> gives its own
  status code; a body that fails validation gives 422; any other exception gives 500.
\<close>

definition http_status :: "handler_value result \<Rightarrow> nat" where
  "http_status r =
     (case r of
        Return _ \<Rightarrow> 200
      | Raise (HTTPException code _) \<Rightarrow> code
      | Raise RequestValidationError \<Rightarrow> 422
      | Raise _ \<Rightarrow> 500)"

section \<open>Sample servers\<close>

text \<open>Servers used to run the dispatcher on concrete requests.\<close>

definition demo_db :: database where
  "demo_db =
     \<lparr> connect_error = None,
       answer = (\<lambda>s.
         if s = ''SHOW TABLES;'' then Rows [[(''Tables_in_shop'', JStr ''orders'')]]
         else if s = ''SELECT * FROM `orders` LIMIT 100;''
           then Rows [[(''id'', JInt 1), (''item'', JStr ''tea'')], [(''id'', JInt 2), (''item'', JNull)]]
         else if s = ''SELECT 1'' then Rows [[(''1'', JInt 1)]]
         else Fails (MySQLError ''1064 (42000): You have an error in your SQL syntax'')) \<rparr>"

definition failing_db :: database where
  "failing_db =
     \<lparr> connect_error = None,
       answer = (\<lambda>s. Fails (MySQLError ''2013 (HY000): Lost connection to MySQL server during query'')) \<rparr>"

definition unreachable_db :: database where
  "unreachable_db =
     \<lparr> connect_error = Some ''2003 (HY000): Cannot connect to MySQL server'',
       answer = (\<lambda>s. Rows []) \<rparr>"

section \<open>Facts about the helpers\<close>

lemma starts_with_prefix: "starts_with p s \<longleftrightarrow> prefix p s"
  by (induction p s rule: starts_with.induct) auto

lemma str_contains_sublist: "str_contains sub s \<longleftrightarrow> sublist sub s"
  by (induction s) (auto simp: starts_with_prefix sublist_Cons_right)

text \<open>The \<^verbatim>\<open>in\<close> test holds exactly when the text splits around an occurrence.\<close>

lemma str_contains_iff: "str_contains sub s \<longleftrightarrow> (\<exists>pre post. s = pre @ sub @ post)"
  by (simp add: str_contains_sublist sublist_def)

lemma blocked_iff:
  "blocked s \<longleftrightarrow>
     (\<exists>kw pre post. kw \<in> {''delete'', ''drop'', ''update'', ''insert''} \<and> str_lower s = pre @ kw @ post)"
proof
  assume "blocked s"
  then consider "str_contains ''delete'' (str_lower s)" | "str_contains ''drop'' (str_lower s)"
    | "str_contains ''update'' (str_lower s)" | "str_contains ''insert'' (str_lower s)"
    unfolding blocked_def by blast
  then show "\<exists>kw pre post. kw \<in> {''delete'', ''drop'', ''update'', ''insert''} \<and> str_lower s = pre @ kw @ post"
  proof cases
    case 1
    then obtain pre post where "str_lower s = pre @ ''delete'' @ post"
      unfolding str_contains_iff by blast
    then show ?thesis by blast
  next
    case 2
    then obtain pre post where "str_lower s = pre @ ''drop'' @ post"
      unfolding str_contains_iff by blast
    then show ?thesis by blast
  next
    case 3
    then obtain pre post where "str_lower s = pre @ ''update'' @ post"
      unfolding str_contains_iff by blast
    then show ?thesis by blast
  next
    case 4
    then obtain pre post where "str_lower s = pre @ ''insert'' @ post"
      unfolding str_contains_iff by blast
    then show ?thesis by blast
  qed
next
  assume "\<exists>kw pre post. kw \<in> {''delete'', ''drop'', ''update'', ''insert''} \<and> str_lower s = pre @ kw @ post"
  then obtain kw pre post where kw: "kw \<in> {''delete'', ''drop'', ''update'', ''insert''}"
    and eq: "str_lower s = pre @ kw @ post" by blast
  from eq have "str_contains kw (str_lower s)" unfolding str_contains_iff by blast
  with kw show "blocked s" unfolding blocked_def by blast
qed

lemma get_parameter_dict:
  "map_of request_data ''parameters'' = Some (JDict ps) \<Longrightarrow>
     get_parameter request_data key = Return (dict_get ps key)"
  by (simp add: get_parameter_def)

lemma get_parameter_absent:
  "map_of request_data ''parameters'' = None \<Longrightarrow> get_parameter request_data key = Return JNull"
  by (simp add: get_parameter_def dict_get_def)

lemma nat_str_500: "nat_str 500 = ''500''"
  by code_simp

lemma str_lower_Bearer: "str_lower ''Bearer'' = ''bearer''"
  by code_simp

lemma lower_char_space: "lower_char (CHR '' '') = CHR '' ''"
  by code_simp

lemma bearer_scheme_no_space:
  assumes "str_lower scheme = ''bearer''"
  shows "CHR '' '' \<notin> set scheme" and "scheme \<noteq> []"
proof -
  show "CHR '' '' \<notin> set scheme"
  proof
    assume "CHR '' '' \<in> set scheme"
    then have "lower_char (CHR '' '') \<in> set (str_lower scheme)"
      unfolding str_lower_def by (metis image_eqI set_map)
    then show False
      unfolding assms lower_char_space by simp
  qed
  show "scheme \<noteq> []"
    using assms by (auto simp: str_lower_def)
qed

text \<open>
  A header made of the scheme \<^verbatim>\<open>bearer\<close> in any letter case, a space and a non-empty token
  passes the security scheme, which hands the token over.
\<close>

lemma http_bearer_token:
  assumes "str_lower scheme = ''bearer''"
    and "token \<noteq> []"
  shows "http_bearer (Some (scheme @ '' '' @ token)) = Return token"
proof -
  have ns: "\<forall>c \<in> set scheme. c \<noteq> CHR '' ''"
    using bearer_scheme_no_space(1) [OF assms(1)] by blast
  have t: "takeWhile (\<lambda>c. c \<noteq> CHR '' '') (scheme @ CHR '' '' # token) = scheme"
    using ns by (simp add: takeWhile_tail)
  have d: "dropWhile (\<lambda>c. c \<noteq> CHR '' '') (scheme @ CHR '' '' # token) = CHR '' '' # token"
    using ns by (simp add: dropWhile_append3)
  have "get_authorization_scheme_param (Some (scheme @ '' '' @ token)) = (scheme, token)"
    using t d by (simp add: get_authorization_scheme_param_def)
  then show ?thesis
    using assms bearer_scheme_no_space(2) [OF assms(1)] by (simp add: http_bearer_def)
qed

lemma valid_token_runs_handler:
  assumes "api_key \<noteq> []"
  shows "post_query api_key db (Some (''Bearer '' @ api_key)) (Decoded (JDict [(''mcp_request'', JDict req)]))
           = process_query db req"
  using http_bearer_token [OF str_lower_Bearer assms] by (simp add: post_query_def verify_api_key_def)

text \<open>
  How \<open>process_query\<close> treats what the dispatcher returns: a mapping with the key
  \<^verbatim>\<open>error\<close> becomes an \<^verbatim>\<open>HTTPException\<close> object that is returned, any other mapping is
  returned as it is.
\<close>

lemma process_query_error_key:
  assumes "handle_request db mcp_request = (Return response, tr)"
    and "map_of response ''error'' = Some msg"
  shows "process_query db mcp_request = (Return (ExcObject (HTTPException 400 msg)), tr)"
    and "http_status (fst (process_query db mcp_request)) = 200"
  using assms by (simp_all add: process_query_def http_status_def)

lemma process_query_no_error_key:
  assumes "handle_request db mcp_request = (Return response, tr)"
    and "map_of response ''error'' = None"
  shows "process_query db mcp_request = (Return (Body response), tr)"
    and "http_status (fst (process_query db mcp_request)) = 200"
  using assms by (simp_all add: process_query_def http_status_def)

text \<open>A \<^verbatim>\<open>read\<close> without a table name is refused before any connection is asked for.\<close>

lemma read_without_name_rejected:
  assumes "map_of request_data ''verb'' = Some (JStr ''read'')"
    and "map_of request_data ''parameters'' = None
         \<or> (\<exists>ps. map_of request_data ''parameters'' = Some (JDict ps)
                \<and> (map_of ps ''name'' = None \<or> map_of ps ''name'' = Some (JStr [])))"
  shows "handle_request db request_data =
           (Return [(''error'', JStr ''Table name is required for read verb.'')], [])"
proof -
  have "get_parameter request_data ''name'' = Return JNull
        \<or> get_parameter request_data ''name'' = Return (JStr [])"
    using assms(2) by (auto simp: get_parameter_def dict_get_def)
  then show ?thesis
    using assms(1) by (auto simp: handle_request_def dict_get_def)
qed

text \<open>
  The \<^verbatim>\<open>execute\<close> branch closes the connection it opened on every path, and so does every
  call of the dispatcher that returns a mapping.
\<close>

lemma execute_closes_what_it_opens:
  assumes "map_of request_data ''verb'' = Some (JStr ''execute'')"
  shows "count_list (snd (handle_request db request_data)) ConnOpen
           = count_list (snd (handle_request db request_data)) ConnClose"
  using assms
  by (simp add: handle_request_def dict_get_def get_db_connection_def
           split: result.split json.split option.split query_outcome.split exn.split)

lemma returning_call_closes_what_it_opens:
  assumes "handle_request db request_data = (Return response, tr)"
  shows "count_list tr ConnOpen = count_list tr ConnClose"
  using assms
  by (auto simp: handle_request_def dict_get_def get_db_connection_def Let_def
           split: result.splits json.splits option.splits query_outcome.splits exn.splits if_splits)

section \<open>The gateway's mapping of dispatcher results\<close>

text \<open>
  Claim C1. A dispatcher result with the key \<^verbatim>\<open>error\<close> should be answered with status 400
  carrying the message. With a valid token and the unknown verb \<^verbatim>\<open>export\<close>, the path operation
  builds the \<^verbatim>\<open>HTTPException\<close> with code 400 but returns it instead of raising it, so the
  response goes out under status 200.
\<close>

theorem soft_error_answered_with_status_200:
  "post_query ''s3cret'' demo_db (Some ''Bearer s3cret'')
       (Decoded (JDict [(''mcp_request'', JDict [(''verb'', JStr ''export'')])]))
     = (Return (ExcObject (HTTPException 400 (JStr ''Unsupported verb: export''))), [])
   \<and> http_status (fst (post_query ''s3cret'' demo_db (Some ''Bearer s3cret'')
       (Decoded (JDict [(''mcp_request'', JDict [(''verb'', JStr ''export'')])])))) = 200"
proof -
  have hb: "http_bearer (Some ''Bearer s3cret'') = Return ''s3cret''"
    using http_bearer_token [OF str_lower_Bearer, of "''s3cret''"] by simp
  show ?thesis
    by (simp add: post_query_def hb verify_api_key_def process_query_def handle_request_def
          dict_get_def py_str_def http_status_def)
qed

section \<open>The connection's life cycle\<close>

text \<open>
  Claim C2. Every connection the dispatcher opens should be closed once before the call ends,
  also when the query raises. For \<^verbatim>\<open>read\<close> and \<^verbatim>\<open>list_resources\<close> on a server whose query
  fails, the exception leaves the dispatcher after the connection and the cursor were opened
  and the statement was sent, and nothing is closed.
\<close>

theorem query_failure_leaves_connection_open:
  "handle_request failing_db
       [(''verb'', JStr ''read''), (''parameters'', JDict [(''name'', JStr ''orders'')])]
     = (Raise (MySQLError ''2013 (HY000): Lost connection to MySQL server during query''),
        [ConnOpen, CursorOpen, Execute ''SELECT * FROM `orders` LIMIT 100;''])
   \<and> handle_request failing_db [(''verb'', JStr ''list_resources'')]
     = (Raise (MySQLError ''2013 (HY000): Lost connection to MySQL server during query''),
        [ConnOpen, CursorOpen, Execute ''SHOW TABLES;''])"
  by (simp add: handle_request_def dict_get_def get_parameter_def get_db_connection_def
        read_statement_def py_str_def failing_db_def)

section \<open>The keyword filter of \<^verbatim>\<open>execute\<close>\<close>

text \<open>
  Claim C3. An \<^verbatim>\<open>execute\<close> request whose statement is a non-empty text that, lowercased,
  contains \<^verbatim>\<open>delete\<close>, \<^verbatim>\<open>drop\<close>, \<^verbatim>\<open>update\<close> or \<^verbatim>\<open>insert\<close> anywhere gets the fixed rejection
  message, and the dispatcher has no effect at all: no connection is opened and no statement
  is sent, whatever the server is.
\<close>

theorem execute_blocked_keyword_rejected:
  assumes "map_of request_data ''verb'' = Some (JStr ''execute'')"
    and "map_of request_data ''parameters'' = Some (JDict ps)"
    and "map_of ps ''statement'' = Some (JStr s)"
    and "s \<noteq> []"
    and "kw \<in> {''delete'', ''drop'', ''update'', ''insert''}"
    and "str_lower s = pre @ kw @ post"
  shows "handle_request db request_data =
           (Return [(''error'', JStr ''Only SELECT statements are allowed for security reasons.'')], [])"
proof -
  have b: "blocked s" using assms(5,6) blocked_iff by blast
  have p: "get_parameter request_data ''statement'' = Return (JStr s)"
    using assms(2,3) by (simp add: get_parameter_dict dict_get_def)
  show ?thesis using assms(1,4) b p by (simp add: handle_request_def dict_get_def)
qed

theorem execute_blocked_keyword_rejected_witness:
  "str_lower ''SELECT 1; Drop TABLE orders'' = ''select 1; '' @ ''drop'' @ '' table orders'' \<and>
   handle_request demo_db
     [(''verb'', JStr ''execute''),
      (''parameters'', JDict [(''statement'', JStr ''SELECT 1; Drop TABLE orders'')])]
   = (Return [(''error'', JStr ''Only SELECT statements are allowed for security reasons.'')], [])"
proof -
  have l: "str_lower ''SELECT 1; Drop TABLE orders'' = ''select 1; '' @ ''drop'' @ '' table orders''"
    by code_simp
  show ?thesis
    using l execute_blocked_keyword_rejected
      [of _ "[(''statement'', JStr ''SELECT 1; Drop TABLE orders'')]" _ "''drop''", OF _ _ _ _ _ l]
    by simp
qed

section \<open>Errors of the query itself\<close>

text \<open>
  Claim C4. On a server that accepts the connection: an \<^verbatim>\<open>execute\<close> request with a non-empty
  statement free of the four keywords, which the server rejects with a driver error, returns
  the mapping \<^verbatim>\<open>{error: "SQL Error: <message>"}\<close> and closes the cursor and the connection;
  for \<^verbatim>\<open>list_resources\<close> and \<^verbatim>\<open>read\<close> the driver error of the query leaves the dispatcher as
  a raised exception.
\<close>

theorem query_error_soft_only_in_execute:
  assumes "connect_error db = None"
  shows
    "(map_of request_data ''verb'' = Some (JStr ''execute'')
        \<and> map_of request_data ''parameters'' = Some (JDict ps)
        \<and> map_of ps ''statement'' = Some (JStr stmt) \<and> stmt \<noteq> [] \<and> \<not> blocked stmt
        \<and> answer db stmt = Fails (MySQLError msg) \<longrightarrow>
      handle_request db request_data =
        (Return [(''error'', JStr (''SQL Error: '' @ msg))],
         [ConnOpen, CursorOpen, Execute stmt, CursorClose, ConnClose]))
     \<and> (map_of request_data ''verb'' = Some (JStr ''list_resources'')
          \<and> answer db ''SHOW TABLES;'' = Fails (MySQLError msg) \<longrightarrow>
          fst (handle_request db request_data) = Raise (MySQLError msg))
     \<and> (map_of request_data ''verb'' = Some (JStr ''read'')
          \<and> map_of request_data ''parameters'' = Some (JDict ps)
          \<and> map_of ps ''name'' = Some (JStr table) \<and> table \<noteq> []
          \<and> answer db (''SELECT * FROM `'' @ table @ ''` LIMIT 100;'') = Fails (MySQLError msg) \<longrightarrow>
          fst (handle_request db request_data) = Raise (MySQLError msg))"
proof (intro conjI impI)
  assume h: "map_of request_data ''verb'' = Some (JStr ''execute'')
        \<and> map_of request_data ''parameters'' = Some (JDict ps)
        \<and> map_of ps ''statement'' = Some (JStr stmt) \<and> stmt \<noteq> [] \<and> \<not> blocked stmt
        \<and> answer db stmt = Fails (MySQLError msg)"
  then have p: "get_parameter request_data ''statement'' = Return (JStr stmt)"
    by (simp add: get_parameter_dict dict_get_def)
  show "handle_request db request_data =
        (Return [(''error'', JStr (''SQL Error: '' @ msg))],
         [ConnOpen, CursorOpen, Execute stmt, CursorClose, ConnClose])"
    using h p assms by (simp add: handle_request_def dict_get_def get_db_connection_def)
next
  assume h: "map_of request_data ''verb'' = Some (JStr ''list_resources'')
          \<and> answer db ''SHOW TABLES;'' = Fails (MySQLError msg)"
  then show "fst (handle_request db request_data) = Raise (MySQLError msg)"
    using assms by (simp add: handle_request_def dict_get_def get_db_connection_def)
next
  assume h: "map_of request_data ''verb'' = Some (JStr ''read'')
          \<and> map_of request_data ''parameters'' = Some (JDict ps)
          \<and> map_of ps ''name'' = Some (JStr table) \<and> table \<noteq> []
          \<and> answer db (''SELECT * FROM `'' @ table @ ''` LIMIT 100;'') = Fails (MySQLError msg)"
  then have p: "get_parameter request_data ''name'' = Return (JStr table)"
    by (simp add: get_parameter_dict dict_get_def)
  show "fst (handle_request db request_data) = Raise (MySQLError msg)"
    using h p assms
    by (simp add: handle_request_def dict_get_def get_db_connection_def read_statement_def py_str_def)
qed

theorem query_error_soft_only_in_execute_witness:
  "handle_request demo_db
      [(''verb'', JStr ''execute''), (''parameters'', JDict [(''statement'', JStr ''SELEC 1'')])]
     = (Return [(''error'', JStr ''SQL Error: 1064 (42000): You have an error in your SQL syntax'')],
        [ConnOpen, CursorOpen, Execute ''SELEC 1'', CursorClose, ConnClose])
   \<and> fst (handle_request failing_db [(''verb'', JStr ''list_resources'')])
     = Raise (MySQLError ''2013 (HY000): Lost connection to MySQL server during query'')
   \<and> fst (handle_request failing_db
             [(''verb'', JStr ''read''), (''parameters'', JDict [(''name'', JStr ''orders'')])])
     = Raise (MySQLError ''2013 (HY000): Lost connection to MySQL server during query'')"
proof -
  have nb: "\<not> blocked ''SELEC 1''" by code_simp
  have a: "handle_request demo_db
      [(''verb'', JStr ''execute''), (''parameters'', JDict [(''statement'', JStr ''SELEC 1'')])]
     = (Return [(''error'', JStr ''SQL Error: 1064 (42000): You have an error in your SQL syntax'')],
        [ConnOpen, CursorOpen, Execute ''SELEC 1'', CursorClose, ConnClose])"
    using nb query_error_soft_only_in_execute
      [of demo_db "[(''verb'', JStr ''execute''), (''parameters'', JDict [(''statement'', JStr ''SELEC 1'')])]"
          "[(''statement'', JStr ''SELEC 1'')]" "''SELEC 1''"
          "''1064 (42000): You have an error in your SQL syntax''", THEN conjunct1]
    by (simp add: demo_db_def)
  have b: "fst (handle_request failing_db [(''verb'', JStr ''list_resources'')])
     = Raise (MySQLError ''2013 (HY000): Lost connection to MySQL server during query'')"
    using query_error_soft_only_in_execute
      [of failing_db "[(''verb'', JStr ''list_resources'')]" _ _
          "''2013 (HY000): Lost connection to MySQL server during query''",
       THEN conjunct2, THEN conjunct1]
    by (simp add: failing_db_def)
  have c: "fst (handle_request failing_db
             [(''verb'', JStr ''read''), (''parameters'', JDict [(''name'', JStr ''orders'')])])
     = Raise (MySQLError ''2013 (HY000): Lost connection to MySQL server during query'')"
    using query_error_soft_only_in_execute
      [of failing_db "[(''verb'', JStr ''read''), (''parameters'', JDict [(''name'', JStr ''orders'')])]"
          "[(''name'', JStr ''orders'')]" _
          "''2013 (HY000): Lost connection to MySQL server during query''" "''orders''",
       THEN conjunct2, THEN conjunct2]
    by (simp add: failing_db_def)
  from a b c show ?thesis by simp
qed

section \<open>The bearer token\<close>




section \<open>Reading a table\<close>



text \<open>
  Claim C7. A \<^verbatim>\<open>read\<close> request without a table name should get the mapping
  \<^verbatim>\<open>{error: "Table name is required for read verb."}\<close> with no connection opened, and the
  gateway should answer 400. The dispatcher does its part; the path operation returns the
  \<^verbatim>\<open>HTTPException\<close> object instead of raising it, and the response goes out under status 200.
\<close>

theorem read_without_name_answered_with_status_200:
  "handle_request demo_db [(''verb'', JStr ''read'')]
     = (Return [(''error'', JStr ''Table name is required for read verb.'')], [])
   \<and> post_query ''s3cret'' demo_db (Some ''Bearer s3cret'')
        (Decoded (JDict [(''mcp_request'', JDict [(''verb'', JStr ''read'')])]))
     = (Return (ExcObject (HTTPException 400 (JStr ''Table name is required for read verb.''))), [])
   \<and> http_status (fst (post_query ''s3cret'' demo_db (Some ''Bearer s3cret'')
        (Decoded (JDict [(''mcp_request'', JDict [(''verb'', JStr ''read'')])])))) = 200"
proof -
  have hb: "http_bearer (Some ''Bearer s3cret'') = Return ''s3cret''"
    using http_bearer_token [OF str_lower_Bearer, of "''s3cret''"] by simp
  show ?thesis
    by (simp add: post_query_def hb verify_api_key_def process_query_def handle_request_def
          dict_get_def get_parameter_def http_status_def)
qed

section \<open>The health check\<close>

text \<open>
  Claim C8. \<^verbatim>\<open>GET /health\<close> always returns a mapping, so its status is 200: with the status
  \<^verbatim>\<open>ok\<close> when a connection can be opened, which is then closed at once, and with the status
  \<^verbatim>\<open>error\<close> and a detail when it cannot.
\<close>

theorem health_check_always_200:
  "http_status (fst (health_check db)) = 200
   \<and> (connect_error db = None \<longrightarrow>
        health_check db =
          (Return (Body [(''status'', JStr ''ok''), (''database_connection'', JStr ''successful'')]),
           [ConnOpen, ConnClose]))
   \<and> (\<forall>err. connect_error db = Some err \<longrightarrow>
        (\<exists>body. fst (health_check db) = Return (Body body)
           \<and> map_of body ''status'' = Some (JStr ''error'')
           \<and> map_of body ''detail'' = Some (JStr (''500: Database connection error: '' @ err))))"
  by (cases "connect_error db")
     (simp_all add: health_check_def get_db_connection_def http_status_def exn_str_def py_str_def
        nat_str_500 del: nat_str.simps)

theorem health_check_always_200_witness:
  "health_check demo_db =
     (Return (Body [(''status'', JStr ''ok''), (''database_connection'', JStr ''successful'')]),
      [ConnOpen, ConnClose])
   \<and> (\<exists>body. fst (health_check unreachable_db) = Return (Body body)
         \<and> map_of body ''status'' = Some (JStr ''error'')
         \<and> map_of body ''detail'' =
             Some (JStr ''500: Database connection error: 2003 (HY000): Cannot connect to MySQL server''))
   \<and> http_status (fst (health_check unreachable_db)) = 200"
proof -
  have a: "connect_error demo_db = None" by (simp add: demo_db_def)
  have b: "connect_error unreachable_db = Some ''2003 (HY000): Cannot connect to MySQL server''"
    by (simp add: unreachable_db_def)
  show ?thesis
    using health_check_always_200 [of demo_db] health_check_always_200 [of unreachable_db] a b
    by simp
qed

section \<open>Verbs outside the three\<close>

text \<open>
  Claim C10. Verbs are compared exactly. A request with no \<^verbatim>\<open>verb\<close> gets
  \<^verbatim>\<open>{error: "Unsupported verb: None"}\<close>, and a verb text other than \<^verbatim>\<open>list_resources\<close>, \<^verbatim>\<open>read\<close>
  and \<^verbatim>\<open>execute\<close>, such as one in another letter case, gets \<^verbatim>\<open>{error: "Unsupported verb: <text>"}\<close>;
  in both cases no connection is opened.
\<close>

theorem unsupported_verb_absent_or_unknown:
  "(map_of request_data ''verb'' = None \<longrightarrow>
      handle_request db request_data = (Return [(''error'', JStr ''Unsupported verb: None'')], []))
   \<and> (\<forall>v. map_of request_data ''verb'' = Some (JStr v)
            \<and> v \<notin> {''list_resources'', ''read'', ''execute''} \<longrightarrow>
          handle_request db request_data = (Return [(''error'', JStr (''Unsupported verb: '' @ v))], []))"
  by (simp add: handle_request_def dict_get_def py_str_def)

theorem unsupported_verb_absent_or_unknown_witness:
  "handle_request demo_db [(''parameters'', JDict [(''name'', JStr ''orders'')])]
     = (Return [(''error'', JStr ''Unsupported verb: None'')], [])
   \<and> handle_request demo_db [(''verb'', JStr ''Read''), (''parameters'', JDict [(''name'', JStr ''orders'')])]
     = (Return [(''error'', JStr ''Unsupported verb: Read'')], [])"
proof -
  have a: "handle_request demo_db [(''parameters'', JDict [(''name'', JStr ''orders'')])]
     = (Return [(''error'', JStr ''Unsupported verb: None'')], [])"
    using unsupported_verb_absent_or_unknown
      [of "[(''parameters'', JDict [(''name'', JStr ''orders'')])]" demo_db]
    by simp
  have b: "handle_request demo_db [(''verb'', JStr ''Read''), (''parameters'', JDict [(''name'', JStr ''orders'')])]
     = (Return [(''error'', JStr (''Unsupported verb: '' @ ''Read''))], [])"
    using unsupported_verb_absent_or_unknown
      [of "[(''verb'', JStr ''Read''), (''parameters'', JDict [(''name'', JStr ''orders'')])]" demo_db,
       THEN conjunct2, THEN spec, of "''Read''"]
    by simp
  from a b show ?thesis by simp
qed

end
